theory Spec2Isabelle
  imports Complex_Main "HOL-Library.Sublist" "HOL-Library.List_Lexorder" "HOL-Library.Char_ord"
begin

section \<open>Data model\<close>

text \<open>
  The scripts of the repository share one relational store (tables \<open>Asset\<close>,
  \<open>PriceData\<close>, \<open>CryptocurrencyPrice\<close>) and one market-data provider. A table is the
  list of its rows in insertion order. A cell of a provider frame is a number or missing
  (pandas \<open>NaN\<close>); the values are only tested for missingness, converted and stored,
  never computed with, and \<open>float(v)\<close> leaves a cell as it is.
\<close>

datatype fval = Num real | NaN

fun isna :: "fval \<Rightarrow> bool" where
  "isna NaN = True"
| "isna (Num x) = False"

text \<open>\<open>int(row['Volume']) if not pd.isna(row['Volume']) else 0\<close>; \<open>int\<close> truncates towards zero.\<close>

fun volume_or_zero :: "fval \<Rightarrow> int" where
  "volume_or_zero NaN = 0"
| "volume_or_zero (Num x) = (if 0 \<le> x then \<lfloor>x\<rfloor> else \<lceil>x\<rceil>)"

datatype exn = OperationalError string | Exception string

text \<open>
  One row of the frame that \<open>ticker.history(...)\<close> returns, with its index already
  formatted by \<open>strftime('%Y-%m-%d %H:%M:%S')\<close>.
\<close>

record raw_row =
  r_date :: string
  r_Open :: fval
  r_High :: fval
  r_Low :: fval
  r_Close :: fval
  r_Volume :: fval

text \<open>The dictionaries built by \<open>fetch_daily_data_for_symbol\<close>.\<close>

record data_point =
  dp_date :: string
  dp_open :: fval
  dp_high :: fval
  dp_low :: fval
  dp_close :: fval
  dp_volume :: int

record asset_row =
  a_id :: string
  a_symbol :: string
  a_name :: string
  a_type :: string
  a_exchange :: string
  a_createdAt :: int
  a_updatedAt :: int

record price_row =
  pd_id :: string
  pd_assetId :: string
  pd_date :: string
  pd_open :: fval
  pd_high :: fval
  pd_low :: fval
  pd_close :: fval
  pd_volume :: int
  pd_createdAt :: int

text \<open>
  The store a cursor works on. \<open>stmts\<close> counts the \<open>INSERT\<close> statements issued so far:
  it indexes what the surroundings decide for each of them (the generated identifier,
  and whether the statement raises).
\<close>

record store =
  Asset :: "asset_row list"
  PriceData :: "price_row list"
  stmts :: nat

text \<open>
  What the code does not decide: the provider's answer for a symbol, the identifier
  generated at the k-th statement, whether the k-th \<open>INSERT\<close> raises, the clock, and the
  failures of the driver's other storage calls (the queries made for a symbol, the commit
  at a position of the loop). Inside the functions below the \<open>SELECT\<close> queries are taken
  to answer; a query that raises does so in the driver, which is where it is caught.
\<close>

record env =
  history :: "string \<Rightarrow> exn + raw_row list"
  gen_id :: "nat \<Rightarrow> string"
  insert_raises :: "nat \<Rightarrow> bool"
  now_ms :: int
  query_raises :: "string \<Rightarrow> bool"
  commit_raises :: "nat \<Rightarrow> bool"

section \<open>fetch\_daily\_data.py\<close>

text \<open>\<open>SELECT DISTINCT symbol FROM Asset WHERE type = 'STOCK'\<close>.\<close>

definition get_all_stock_symbols :: "asset_row list \<Rightarrow> string list" where
  "get_all_stock_symbols assets =
     remdups (map a_symbol (filter (\<lambda>a. a_type a = ''STOCK'') assets))"

text \<open>\<open>SELECT id FROM Asset WHERE symbol = ?\<close> and \<open>fetchone()\<close>: the first matching row.\<close>

definition get_asset_id :: "asset_row list \<Rightarrow> string \<Rightarrow> string option" where
  "get_asset_id assets symbol =
     map_option a_id (find (\<lambda>a. a_symbol a = symbol) assets)"

text \<open>The test \<open>pd.isna(row['Open']) or pd.isna(row['Close']) or ...\<close> of the fetchers.\<close>

definition critical_nan :: "raw_row \<Rightarrow> bool" where
  "critical_nan row \<longleftrightarrow>
     isna (r_Open row) \<or> isna (r_Close row) \<or> isna (r_High row) \<or> isna (r_Low row)"

definition to_data_point :: "raw_row \<Rightarrow> data_point" where
  "to_data_point row =
     \<lparr>dp_date = r_date row, dp_open = r_Open row, dp_high = r_High row, dp_low = r_Low row,
      dp_close = r_Close row, dp_volume = volume_or_zero (r_Volume row)\<rparr>"

fun convert_rows :: "raw_row list \<Rightarrow> data_point list" where
  "convert_rows [] = []"
| "convert_rows (row # rows) =
     (if critical_nan row then convert_rows rows
      else to_data_point row # convert_rows rows)"

text \<open>
  The provider raising and the provider having nothing both end in \<open>return []\<close>: the
  first through the \<open>except\<close> of the function, which prints the error.
\<close>

definition fetch_daily_data_for_symbol :: "env \<Rightarrow> string \<Rightarrow> data_point list" where
  "fetch_daily_data_for_symbol e symbol =
     (case history e symbol of
        Inl ex \<Rightarrow> []
      | Inr hist \<Rightarrow> if hist = [] then [] else convert_rows hist)"

text \<open>\<open>SELECT date FROM PriceData WHERE assetId = ?\<close>, collected into a set.\<close>

definition existing_dates :: "price_row list \<Rightarrow> string \<Rightarrow> string set" where
  "existing_dates prices asset_id =
     set (map pd_date (filter (\<lambda>r. pd_assetId r = asset_id) prices))"

definition new_price_row :: "env \<Rightarrow> string \<Rightarrow> int \<Rightarrow> data_point \<Rightarrow> nat \<Rightarrow> price_row" where
  "new_price_row e asset_id timestamp dp k =
     \<lparr>pd_id = gen_id e k, pd_assetId = asset_id, pd_date = dp_date dp,
      pd_open = dp_open dp, pd_high = dp_high dp, pd_low = dp_low dp,
      pd_close = dp_close dp, pd_volume = dp_volume dp, pd_createdAt = timestamp\<rparr>"

text \<open>
  The loop over \<open>new_data_points\<close> (lines 99 to 117): each \<open>INSERT\<close> is tried; one that
  raises is logged and the loop goes on with the next data point.
\<close>

fun insert_data_points ::
  "env \<Rightarrow> string \<Rightarrow> int \<Rightarrow> data_point list \<Rightarrow> nat \<Rightarrow> store \<Rightarrow> nat \<times> store" where
  "insert_data_points e asset_id timestamp [] inserted_count st = (inserted_count, st)"
| "insert_data_points e asset_id timestamp (dp # dps) inserted_count st =
     (if insert_raises e (stmts st)
      then insert_data_points e asset_id timestamp dps inserted_count
             (st\<lparr>stmts := Suc (stmts st)\<rparr>)
      else insert_data_points e asset_id timestamp dps (Suc inserted_count)
             (st\<lparr>PriceData := PriceData st @ [new_price_row e asset_id timestamp dp (stmts st)],
                 stmts := Suc (stmts st)\<rparr>))"

text \<open>The duplicate filter: \<open>[dp for dp in data_points if dp['date'] not in existing_dates]\<close>.\<close>

definition filter_new :: "price_row list \<Rightarrow> string \<Rightarrow> data_point list \<Rightarrow> data_point list" where
  "filter_new prices asset_id data_points =
     filter (\<lambda>dp. dp_date dp \<notin> existing_dates prices asset_id) data_points"

definition update_daily_data :: "env \<Rightarrow> store \<Rightarrow> string \<Rightarrow> data_point list \<Rightarrow> nat \<times> store" where
  "update_daily_data e st symbol data_points =
     (if data_points = [] then (0, st)
      else case get_asset_id (Asset st) symbol of
        None \<Rightarrow> (0, st)
      | Some asset_id \<Rightarrow>
          if asset_id = [] then (0, st)
          else let new_data_points = filter_new (PriceData st) asset_id data_points
               in if new_data_points = [] then (0, st)
                  else insert_data_points e asset_id (now_ms e) new_data_points 0 st)"

text \<open>
  The counters of \<open>main\<close> and what its loop-level handler printed (the symbols of the
  lines \<open>ERROR: Failed to process ...\<close>).
\<close>

record summary =
  total_inserted :: nat
  successful_updates :: nat
  failed_updates :: nat
  failed_symbols :: "string list"

definition loop_handler :: "string \<Rightarrow> summary \<Rightarrow> summary" where
  "loop_handler symbol s =
     s\<lparr>failed_updates := failed_updates s + 1, failed_symbols := failed_symbols s @ [symbol]\<rparr>"

text \<open>
  What the loop of \<open>main\<close> carries along: the counters, the store the cursor works on,
  and the store as of the last commit (what a rollback goes back to).
\<close>

record progress =
  counters :: summary
  db :: store
  last_commit :: store

text \<open>
  \<open>if i % 10 == 0: conn.commit()\<close>, the last statement of the \<open>try\<close> of the loop body. A
  commit that raises is caught by the handler of the loop and leaves the transaction open.
\<close>

definition commit_step :: "env \<Rightarrow> nat \<Rightarrow> string \<Rightarrow> progress \<Rightarrow> progress" where
  "commit_step e i symbol r =
     (if i mod 10 = 0
      then if commit_raises e i then r\<lparr>counters := loop_handler symbol (counters r)\<rparr>
           else r\<lparr>last_commit := db r\<rparr>
      else r)"

text \<open>
  One pass of the body of the loop of \<open>main\<close> (lines 147 to 176). An exception in
  \<open>update_daily_data\<close> comes from one of its two queries, before any row is written.
\<close>

definition process_symbol :: "env \<Rightarrow> nat \<Rightarrow> string \<Rightarrow> progress \<Rightarrow> progress" where
  "process_symbol e i symbol r =
     (let data_points = fetch_daily_data_for_symbol e symbol
      in if data_points \<noteq> [] then
           if query_raises e symbol then r\<lparr>counters := loop_handler symbol (counters r)\<rparr>
           else let u = update_daily_data e (db r) symbol data_points;
                    s' = (counters r)\<lparr>total_inserted := total_inserted (counters r) + fst u,
                                     successful_updates := successful_updates (counters r) + 1\<rparr>
                in commit_step e i symbol (r\<lparr>counters := s', db := snd u\<rparr>)
         else commit_step e i symbol
                (r\<lparr>counters := (counters r)\<lparr>failed_updates := failed_updates (counters r) + 1\<rparr>\<rparr>))"

fun process_symbols :: "env \<Rightarrow> nat \<Rightarrow> string list \<Rightarrow> progress \<Rightarrow> progress" where
  "process_symbols e i [] r = r"
| "process_symbols e i (symbol # symbols) r =
     process_symbols e (Suc i) symbols (process_symbol e i symbol r)"

definition no_summary :: summary where
  "no_summary = \<lparr>total_inserted = 0, successful_updates = 0, failed_updates = 0,
                 failed_symbols = []\<rparr>"

text \<open>
  \<open>main\<close>, from the query of the symbols on. Without symbols it returns before the loop.
  After the loop comes the final \<open>conn.commit()\<close> (the commit after the last pass, numbered
  one more than the passes): when it raises, the outer handler prints the fatal error,
  rolls back to the last commit and raises again; otherwise the summary is printed.
\<close>

datatype main_outcome = NoSymbols | Summary summary | Fatal

definition main :: "env \<Rightarrow> store \<Rightarrow> main_outcome \<times> store" where
  "main e st =
     (let symbols = get_all_stock_symbols (Asset st)
      in if symbols = [] then (NoSymbols, st)
         else let r = process_symbols e 1 symbols \<lparr>counters = no_summary, db = st, last_commit = st\<rparr>
              in if commit_raises e (Suc (length symbols))
                 then (Fatal, (last_commit r)\<lparr>stmts := stmts (db r)\<rparr>)
                 else (Summary (counters r), db r))"

section \<open>fetch\_daily\_wal.py\<close>


section \<open>fetch\_daily\_simple.py\<close>

text \<open>
  \<open>wait_for_database\<close>: the i-th attempt to connect either gives a connection or raises.
  Only an \<open>OperationalError\<close> whose text contains \<open>database is locked\<close> is waited out, two
  seconds each time. The result comes with the attempts made and the seconds slept.
\<close>

fun wait_loop ::
  "(nat \<Rightarrow> exn + store) \<Rightarrow> nat \<Rightarrow> nat \<Rightarrow> nat \<Rightarrow> (exn + store) \<times> nat \<times> nat" where
  "wait_loop connect i 0 slept =
     (Inl (Exception ''Database remained locked after all retries''), i, slept)"
| "wait_loop connect i (Suc n) slept =
     (case connect i of
        Inr conn \<Rightarrow> (Inr conn, Suc i, slept)
      | Inl (OperationalError msg) \<Rightarrow>
          if sublist ''database is locked'' msg
          then wait_loop connect (Suc i) n (slept + 2)
          else (Inl (OperationalError msg), Suc i, slept)
      | Inl (Exception msg) \<Rightarrow> (Inl (Exception msg), Suc i, slept))"

definition wait_for_database :: "(nat \<Rightarrow> exn + store) \<Rightarrow> nat \<Rightarrow> (exn + store) \<times> nat \<times> nat" where
  "wait_for_database connect max_retries = wait_loop connect 0 max_retries 0"

text \<open>
  The loop of \<open>fetch_and_update_stock\<close> over the rows of the frame: a date already stored
  is skipped, then a row with a missing price, and an \<open>INSERT\<close> that raises is logged.
\<close>

definition raw_price_row :: "env \<Rightarrow> string \<Rightarrow> int \<Rightarrow> raw_row \<Rightarrow> nat \<Rightarrow> price_row" where
  "raw_price_row e asset_id timestamp row k =
     \<lparr>pd_id = gen_id e k, pd_assetId = asset_id, pd_date = r_date row,
      pd_open = r_Open row, pd_high = r_High row, pd_low = r_Low row,
      pd_close = r_Close row, pd_volume = volume_or_zero (r_Volume row),
      pd_createdAt = timestamp\<rparr>"

fun insert_history ::
  "env \<Rightarrow> string \<Rightarrow> int \<Rightarrow> string set \<Rightarrow> raw_row list \<Rightarrow> nat \<Rightarrow> store \<Rightarrow> nat \<times> store" where
  "insert_history e asset_id timestamp existing [] new_count st = (new_count, st)"
| "insert_history e asset_id timestamp existing (row # rows) new_count st =
     (if r_date row \<in> existing then insert_history e asset_id timestamp existing rows new_count st
      else if critical_nan row
        then insert_history e asset_id timestamp existing rows new_count st
      else if insert_raises e (stmts st)
        then insert_history e asset_id timestamp existing rows new_count
               (st\<lparr>stmts := Suc (stmts st)\<rparr>)
      else insert_history e asset_id timestamp existing rows (Suc new_count)
             (st\<lparr>PriceData := PriceData st @ [raw_price_row e asset_id timestamp row (stmts st)],
                 stmts := Suc (stmts st)\<rparr>))"

definition fetch_and_update_stock :: "env \<Rightarrow> store \<Rightarrow> string \<Rightarrow> nat \<times> store" where
  "fetch_and_update_stock e st symbol =
     (case get_asset_id (Asset st) symbol of
        None \<Rightarrow> (0, st)
      | Some asset_id \<Rightarrow>
          if asset_id = [] then (0, st)
          else case history e symbol of
            Inl ex \<Rightarrow> (0, st)
          | Inr hist \<Rightarrow>
              if hist = [] then (0, st)
              else insert_history e asset_id (now_ms e)
                     (existing_dates (PriceData st) asset_id) hist 0 st)"

text \<open>\<open>SELECT DISTINCT symbol FROM Asset WHERE type = 'STOCK' ORDER BY symbol\<close>.\<close>

definition get_all_stock_symbols_sorted :: "asset_row list \<Rightarrow> string list" where
  "get_all_stock_symbols_sorted assets = sort (get_all_stock_symbols assets)"

text \<open>
  The loop of \<open>main\<close> of this script: every stock counts as a success (\<open>new_count >= 0\<close>
  always holds), and the commit after each stock is what can reach the handler.
\<close>

fun process_stocks ::
  "env \<Rightarrow> nat \<Rightarrow> string list \<Rightarrow> summary \<times> store \<Rightarrow> summary \<times> store" where
  "process_stocks e i [] acc = acc"
| "process_stocks e i (stock # stocks) acc =
     (let r = fetch_and_update_stock e (snd acc) stock;
          s = (fst acc)\<lparr>total_inserted := total_inserted (fst acc) + fst r,
                        successful_updates := successful_updates (fst acc) + 1\<rparr>
      in process_stocks e (Suc i) stocks
           (if commit_raises e i then loop_handler stock s else s, snd r))"

text \<open>
  \<open>main\<close> of fetch\_daily\_simple.py with \<open>sys.exit(main())\<close>: the exit status, the attempts and
  the seconds \<open>wait_for_database\<close> took, and the run when there was one. Every exception that
  reaches the outer handler gives status 1.
\<close>

record run_result =
  exit_status :: nat
  attempts :: nat
  seconds_slept :: nat
  outcome :: "(summary \<times> store) option"

definition main_simple :: "(nat \<Rightarrow> exn + store) \<Rightarrow> env \<Rightarrow> run_result" where
  "main_simple connect e =
     (case wait_for_database connect 10 of
        (Inl ex, n, slept) \<Rightarrow>
          \<lparr>exit_status = 1, attempts = n, seconds_slept = slept, outcome = None\<rparr>
      | (Inr st, n, slept) \<Rightarrow>
          let all_stocks = get_all_stock_symbols_sorted (Asset st)
          in if all_stocks = []
             then \<lparr>exit_status = 0, attempts = n, seconds_slept = slept, outcome = None\<rparr>
             else \<lparr>exit_status = 0, attempts = n, seconds_slept = slept,
                   outcome = Some (process_stocks e 1 all_stocks (no_summary, st))\<rparr>)"

section \<open>import\_stocks\_fast.py and add\_missing\_stocks.py\<close>

definition new_asset_row :: "string \<Rightarrow> string \<Rightarrow> string \<Rightarrow> int \<Rightarrow> asset_row" where
  "new_asset_row asset_id symbol name timestamp =
     \<lparr>a_id = asset_id, a_symbol = symbol, a_name = name, a_type = ''STOCK'',
      a_exchange = ''NASDAQ'', a_createdAt = timestamp, a_updatedAt = timestamp\<rparr>"




section \<open>fetch\_crypto\_data.py and fetch\_all\_crypto\_data.py\<close>

record crypto_price_row =
  cp_id :: string
  cp_cryptocurrencyId :: string
  cp_date :: string
  cp_open :: fval
  cp_high :: fval
  cp_low :: fval
  cp_close :: fval
  cp_volume :: fval
  cp_marketCap :: "real option"
  cp_createdAt :: string

record crypto_store =
  CryptocurrencyPrice :: "crypto_price_row list"
  c_stmts :: nat

text \<open>What one call of \<open>fetch_and_store_crypto_data\<close> meets: the provider's answer, the
  identifiers of \<open>generate_cuid()\<close>, the statements that raise, the commit, the clock.\<close>

record crypto_env =
  c_history :: "exn + raw_row list"
  c_gen_id :: "nat \<Rightarrow> string"
  c_insert_raises :: "nat \<Rightarrow> bool"
  c_commit_raises :: bool
  c_now :: string

text \<open>
  Modelled from the spec: the declaration of table \<open>CryptocurrencyPrice\<close> (the schema of
  the store) is not among the sources, and it decides which rows \<open>INSERT OR REPLACE\<close>
  replaces. The spec gives the price rows of a cryptocurrency "upsert-by-replace
  semantics (a later fetch overwrites a same-date row)": the rows that a new row
  replaces are those of the same \<open>cryptocurrencyId\<close> and \<open>date\<close>. The statement deletes
  them and inserts the new row.
\<close>

definition same_key :: "crypto_price_row \<Rightarrow> crypto_price_row \<Rightarrow> bool" where
  "same_key new old \<longleftrightarrow>
     cp_cryptocurrencyId old = cp_cryptocurrencyId new \<and> cp_date old = cp_date new"

definition insert_or_replace :: "crypto_price_row \<Rightarrow> crypto_price_row list \<Rightarrow> crypto_price_row list" where
  "insert_or_replace new rows = filter (\<lambda>old. \<not> same_key new old) rows @ [new]"

definition new_crypto_row :: "crypto_env \<Rightarrow> string \<Rightarrow> raw_row \<Rightarrow> nat \<Rightarrow> crypto_price_row" where
  "new_crypto_row ce crypto_id row k =
     \<lparr>cp_id = c_gen_id ce k, cp_cryptocurrencyId = crypto_id, cp_date = r_date row,
      cp_open = r_Open row, cp_high = r_High row, cp_low = r_Low row,
      cp_close = r_Close row, cp_volume = r_Volume row, cp_marketCap = None,
      cp_createdAt = c_now ce\<rparr>"

fun store_crypto_rows ::
  "crypto_env \<Rightarrow> string \<Rightarrow> raw_row list \<Rightarrow> nat \<Rightarrow> crypto_store \<Rightarrow> nat \<times> crypto_store" where
  "store_crypto_rows ce crypto_id [] inserted_count st = (inserted_count, st)"
| "store_crypto_rows ce crypto_id (row # rows) inserted_count st =
     (if c_insert_raises ce (c_stmts st)
      then store_crypto_rows ce crypto_id rows inserted_count (st\<lparr>c_stmts := Suc (c_stmts st)\<rparr>)
      else store_crypto_rows ce crypto_id rows (Suc inserted_count)
             (st\<lparr>CryptocurrencyPrice :=
                   insert_or_replace (new_crypto_row ce crypto_id row (c_stmts st))
                     (CryptocurrencyPrice st),
                 c_stmts := Suc (c_stmts st)\<rparr>))"

text \<open>
  \<open>fetch_and_store_crypto_data\<close> of fetch\_all\_crypto\_data.py (the one of
  fetch\_crypto\_data.py differs in returning nothing). A commit that raises reaches the
  outer handler, which rolls the rows of this call back.
\<close>

definition fetch_and_store_crypto_data ::
  "crypto_env \<Rightarrow> crypto_store \<Rightarrow> string \<Rightarrow> bool \<times> crypto_store" where
  "fetch_and_store_crypto_data ce st crypto_id =
     (case c_history ce of
        Inl ex \<Rightarrow> (False, st)
      | Inr hist \<Rightarrow>
          if hist = [] then (False, st)
          else let r = store_crypto_rows ce crypto_id hist 0 st
               in if c_commit_raises ce
                  then (False, st\<lparr>c_stmts := c_stmts (snd r)\<rparr>)
                  else (True, snd r))"

section \<open>Notions the statements below use\<close>

text \<open>The statements of a batch that did not raise, each with its number.\<close>

definition inserted :: "env \<Rightarrow> store \<Rightarrow> data_point list \<Rightarrow> (nat \<times> data_point) list" where
  "inserted e st dps = filter (\<lambda>(k, dp). \<not> insert_raises e k) (enumerate (stmts st) dps)"

text \<open>No two rows of \<open>PriceData\<close> have the same \<open>assetId\<close> and \<open>date\<close>.\<close>

definition no_duplicate_dates :: "price_row list \<Rightarrow> bool" where
  "no_duplicate_dates prices \<longleftrightarrow> distinct (map (\<lambda>r. (pd_assetId r, pd_date r)) prices)"

text \<open>A sequence of ingestion runs, each a call of \<open>update_daily_data\<close>.\<close>

fun ingestion_runs :: "env \<Rightarrow> store \<Rightarrow> (string \<times> data_point list) list \<Rightarrow> store" where
  "ingestion_runs e st [] = st"
| "ingestion_runs e st (run # runs) =
     ingestion_runs e (snd (update_daily_data e st (fst run) (snd run))) runs"

text \<open>An attempt to connect that failed with the error \<open>wait_for_database\<close> waits out.\<close>

definition locked :: "exn + store \<Rightarrow> bool" where
  "locked r \<longleftrightarrow>
     (case r of Inl (OperationalError msg) \<Rightarrow> sublist ''database is locked'' msg
      | _ \<Rightarrow> False)"

text \<open>An exception reaches the handler of the loop of \<open>main\<close> in pass \<open>i\<close>, for this symbol.\<close>

definition raises_in_loop :: "env \<Rightarrow> nat \<Rightarrow> string \<Rightarrow> bool" where
  "raises_in_loop e i symbol \<longleftrightarrow>
     (if fetch_daily_data_for_symbol e symbol \<noteq> [] \<and> query_raises e symbol then True
      else i mod 10 = 0 \<and> commit_raises e i)"

text \<open>
  For the crypto variant: the statements of a series that did not raise, each with its
  number; the rows a table holds for a cryptocurrency and a date; the statements for the
  bars of a date.
\<close>

definition stored :: "crypto_env \<Rightarrow> crypto_store \<Rightarrow> raw_row list \<Rightarrow> (nat \<times> raw_row) list" where
  "stored ce st rows = filter (\<lambda>(k, row). \<not> c_insert_raises ce k) (enumerate (c_stmts st) rows)"

definition price_rows_for :: "string \<Rightarrow> string \<Rightarrow> crypto_price_row list \<Rightarrow> crypto_price_row list" where
  "price_rows_for crypto_id d rows =
     filter (\<lambda>r. cp_cryptocurrencyId r = crypto_id \<and> cp_date r = d) rows"

definition on_date :: "string \<Rightarrow> (nat \<times> raw_row) list \<Rightarrow> (nat \<times> raw_row) list" where
  "on_date d xs = filter (\<lambda>(k, row). r_date row = d) xs"

section \<open>Concrete stores and surroundings\<close>

definition aapl :: asset_row where
  "aapl = new_asset_row ''a1'' ''AAPL'' ''Apple Inc.'' 1700000000000"

definition bar :: "string \<Rightarrow> real \<Rightarrow> data_point" where
  "bar d c = \<lparr>dp_date = d, dp_open = Num c, dp_high = Num (c + 1), dp_low = Num (c - 1),
              dp_close = Num c, dp_volume = 1000\<rparr>"

definition quiet :: env where
  "quiet = \<lparr>history = (\<lambda>s. Inr []), gen_id = (\<lambda>k. replicate (Suc k) CHR ''p''),
            insert_raises = (\<lambda>k. False), now_ms = 1700000000123,
            query_raises = (\<lambda>s. False), commit_raises = (\<lambda>i. False)\<rparr>"

definition store1 :: store where
  "store1 = \<lparr>Asset = [aapl], PriceData = [], stmts = 0\<rparr>"

definition jan2 :: string where "jan2 = ''2024-01-02 00:00:00''"

definition jan3 :: string where "jan3 = ''2024-01-03 00:00:00''"

definition flaky :: "nat \<Rightarrow> env" where
  "flaky n = quiet\<lparr>insert_raises := (\<lambda>k. k = n)\<rparr>"

definition ten_bars :: "data_point list" where
  "ten_bars = map (\<lambda>d. bar d 10)
     [''2024-01-01'', ''2024-01-02'', ''2024-01-03'', ''2024-01-04'', ''2024-01-05'',
      ''2024-01-06'', ''2024-01-07'', ''2024-01-08'', ''2024-01-09'', ''2024-01-10'']"

definition always_locked :: "nat \<Rightarrow> exn + store" where
  "always_locked i = Inl (OperationalError ''database is locked'')"

definition unreadable_after :: "nat \<Rightarrow> nat \<Rightarrow> exn + store" where
  "unreadable_after n i =
     (if i < n then Inl (OperationalError ''database is locked'')
      else Inl (OperationalError ''unable to open database file''))"

definition raw_bar :: "string \<Rightarrow> real \<Rightarrow> raw_row" where
  "raw_bar d c = \<lparr>r_date = d, r_Open = Num c, r_High = Num (c + 1), r_Low = Num (c - 1),
                  r_Close = Num c, r_Volume = Num 1000\<rparr>"

definition abc_store :: store where
  "abc_store = \<lparr>Asset = [new_asset_row ''ida'' ''A'' ''A'' 0, new_asset_row ''idb'' ''B'' ''B'' 0,
                          new_asset_row ''idc'' ''C'' ''C'' 0],
                 PriceData = [], stmts = 0\<rparr>"

definition b_fails :: env where
  "b_fails = quiet\<lparr>history := (\<lambda>s. Inr [raw_bar jan2 10]), query_raises := (\<lambda>s. s = ''B'')\<rparr>"

definition offline :: env where
  "offline = quiet\<lparr>history := (\<lambda>s. Inl (Exception ''timed out''))\<rparr>"

definition btc_old :: crypto_price_row where
  "btc_old = \<lparr>cp_id = ''old'', cp_cryptocurrencyId = ''btc'', cp_date = jan2,
              cp_open = Num 1, cp_high = Num 2, cp_low = Num 0, cp_close = Num 1,
              cp_volume = Num 7, cp_marketCap = None, cp_createdAt = ''2024-01-02T08:00:00''\<rparr>"

definition btc_store :: crypto_store where
  "btc_store = \<lparr>CryptocurrencyPrice = [btc_old], c_stmts = 0\<rparr>"

definition refetch :: crypto_env where
  "refetch = \<lparr>c_history = Inr [raw_bar jan2 20, raw_bar jan3 21],
              c_gen_id = (\<lambda>k. replicate (Suc k) CHR ''u''),
              c_insert_raises = (\<lambda>k. False), c_commit_raises = False,
              c_now = ''2024-01-04T08:00:00''\<rparr>"

definition gappy :: "raw_row list" where
  "gappy = [(raw_bar jan2 10)\<lparr>r_Volume := NaN\<rparr>, (raw_bar jan3 11)\<lparr>r_Close := NaN\<rparr>]"

definition accepting :: crypto_env where
  "accepting = refetch\<lparr>c_history := Inr gappy\<rparr>"

definition rejecting :: crypto_env where
  "rejecting = refetch\<lparr>c_history := Inr gappy, c_insert_raises := (\<lambda>k. True)\<rparr>"

definition no_prices :: crypto_store where
  "no_prices = \<lparr>CryptocurrencyPrice = [], c_stmts = 0\<rparr>"


definition b_offline :: env where
  "b_offline = quiet\<lparr>history :=
     (\<lambda>s. if s = ''B'' then Inl (Exception ''timed out'') else Inr [raw_bar jan2 10])\<rparr>"

definition b_insert_fails :: env where
  "b_insert_fails = quiet\<lparr>history := (\<lambda>s. Inr [raw_bar jan2 10]), insert_raises := (\<lambda>k. k = 1)\<rparr>"

definition abc_start :: progress where
  "abc_start = \<lparr>counters = no_summary, db = abc_store, last_commit = abc_store\<rparr>"

definition start1 :: progress where
  "start1 = \<lparr>counters = no_summary, db = store1, last_commit = store1\<rparr>"

definition refetch_fails :: crypto_env where
  "refetch_fails = refetch\<lparr>c_insert_raises := (\<lambda>k. k = 0)\<rparr>"

lemmas concrete_defs = store1_def aapl_def new_asset_row_def quiet_def bar_def jan2_def jan3_def
  update_daily_data_def get_asset_id_def filter_new_def existing_dates_def new_price_row_def

section \<open>A symbol without an Asset row\<close>




section \<open>The row writer\<close>

lemma inserted_Nil: "inserted e st [] = []"
  by (simp add: inserted_def)

lemma inserted_Cons:
  "inserted e st (dp # dps) =
     (if insert_raises e (stmts st) then [] else [(stmts st, dp)])
     @ inserted e (st\<lparr>stmts := Suc (stmts st)\<rparr>) dps"
  by (simp add: inserted_def)

lemma inserted_upd:
  "inserted e (st\<lparr>PriceData := ps, stmts := k\<rparr>) dps = inserted e (st\<lparr>stmts := k\<rparr>) dps"
  by (simp add: inserted_def)

lemma insert_data_points_result:
  "insert_data_points e aid ts dps n st =
     (n + length (inserted e st dps),
      st\<lparr>PriceData := PriceData st @ map (\<lambda>(k, dp). new_price_row e aid ts dp k) (inserted e st dps),
         stmts := stmts st + length dps\<rparr>)"
proof (induction dps arbitrary: n st)
  case Nil
  then show ?case by (simp add: inserted_Nil)
next
  case (Cons dp dps)
  show ?case
    by (simp add: Cons.IH inserted_Cons inserted_upd)
qed

lemma update_daily_data_result:
  assumes "get_asset_id (Asset st) symbol = Some asset_id" and "asset_id \<noteq> []"
  shows "update_daily_data e st symbol dps =
     (length (inserted e st (filter_new (PriceData st) asset_id dps)),
      st\<lparr>PriceData := PriceData st @
           map (\<lambda>(k, dp). new_price_row e asset_id (now_ms e) dp k)
             (inserted e st (filter_new (PriceData st) asset_id dps)),
         stmts := stmts st + length (filter_new (PriceData st) asset_id dps)\<rparr>)"
proof (cases "filter_new (PriceData st) asset_id dps = []")
  case True
  then show ?thesis
    using assms by (simp add: update_daily_data_def inserted_Nil)
next
  case False
  then have "dps \<noteq> []" by (auto simp: filter_new_def)
  with False show ?thesis
    using assms by (simp add: update_daily_data_def insert_data_points_result Let_def)
qed

lemma inserted_count:
  "length (inserted e st dps)
     + length (filter (insert_raises e) [stmts st ..< stmts st + length dps]) = length dps"
proof -
  have "length (filter (\<lambda>p. \<not> insert_raises e (fst p)) (enumerate (stmts st) dps))
        + length (filter (\<lambda>p. insert_raises e (fst p)) (enumerate (stmts st) dps))
        = length (enumerate (stmts st) dps)"
    using sum_length_filter_compl [of "\<lambda>p. \<not> insert_raises e (fst p)" "enumerate (stmts st) dps"]
    by simp
  moreover have "length (filter (insert_raises e) (map fst (enumerate (stmts st) dps)))
        = length (filter (\<lambda>p. insert_raises e (fst p)) (enumerate (stmts st) dps))"
    unfolding filter_map by (simp add: comp_def)
  moreover have "map fst (enumerate (stmts st) dps) = [stmts st ..< stmts st + length dps]"
    by (rule map_fst_enumerate)
  ultimately show ?thesis
    by (simp add: inserted_def case_prod_unfold)
qed


section \<open>Dates per asset\<close>

lemma distinct_inserted:
  assumes "distinct (map f dps)"
  shows "distinct (map (\<lambda>p. f (snd p)) (inserted e st dps))"
proof -
  have "map (\<lambda>p. f (snd p)) (enumerate (stmts st) dps) = map f dps"
    by (simp add: map_snd_enumerate flip: map_map [of f snd, unfolded comp_def])
  with assms have "distinct (map (\<lambda>p. f (snd p)) (enumerate (stmts st) dps))" by simp
  then show ?thesis
    unfolding inserted_def by (rule distinct_map_filter)
qed

lemma set_inserted: "p \<in> set (inserted e st dps) \<Longrightarrow> snd p \<in> set dps"
  by (auto simp: inserted_def in_set_enumerate_eq)

lemma key_in_prices:
  "(a, d) \<in> set (map (\<lambda>r. (pd_assetId r, pd_date r)) prices) \<longleftrightarrow> d \<in> existing_dates prices a"
  by (auto simp: existing_dates_def)

lemma update_keeps_no_duplicates:
  assumes inv: "no_duplicate_dates (PriceData st)" and dist: "distinct (map dp_date dps)"
  shows "no_duplicate_dates (PriceData (snd (update_daily_data e st symbol dps)))"
proof (cases "get_asset_id (Asset st) symbol")
  case None
  then show ?thesis using inv by (simp add: update_daily_data_def)
next
  case (Some aid)
  show ?thesis
  proof (cases "aid = []")
    case True
    with Some show ?thesis using inv by (simp add: update_daily_data_def)
  next
    case False
    let ?new = "filter_new (PriceData st) aid dps"
    let ?ins = "inserted e st ?new"
    have d1: "distinct (map dp_date ?new)"
      using dist unfolding filter_new_def by (rule distinct_map_filter)
    have d2: "distinct (map (\<lambda>p. dp_date (snd p)) ?ins)"
      using d1 by (rule distinct_inserted)
    have keys: "map (\<lambda>r. (pd_assetId r, pd_date r))
                 (map (\<lambda>(k, dp). new_price_row e aid (now_ms e) dp k) ?ins)
               = map (\<lambda>p. (aid, dp_date (snd p))) ?ins"
      by (simp add: new_price_row_def case_prod_unfold comp_def)
    have d3: "distinct (map (\<lambda>p. (aid, dp_date (snd p))) ?ins)"
      using d2 by (simp add: distinct_map inj_on_def)
    have disj: "set (map (\<lambda>r. (pd_assetId r, pd_date r)) (PriceData st))
                \<inter> set (map (\<lambda>p. (aid, dp_date (snd p))) ?ins) = {}"
    proof -
      have "\<And>p. p \<in> set ?ins \<Longrightarrow> dp_date (snd p) \<notin> existing_dates (PriceData st) aid"
        using set_inserted [of _ e st ?new] by (auto simp: filter_new_def)
      then show ?thesis
        using key_in_prices [of aid _ "PriceData st"] by fastforce
    qed
    have pd: "PriceData (snd (update_daily_data e st symbol dps))
              = PriceData st @ map (\<lambda>(k, dp). new_price_row e aid (now_ms e) dp k) ?ins"
      by (simp add: update_daily_data_result [OF Some False])
    have "map (\<lambda>r. (pd_assetId r, pd_date r)) (PriceData (snd (update_daily_data e st symbol dps)))
          = map (\<lambda>r. (pd_assetId r, pd_date r)) (PriceData st)
            @ map (\<lambda>p. (aid, dp_date (snd p))) ?ins"
      unfolding pd map_append keys ..
    then show ?thesis
      using inv d3 disj unfolding no_duplicate_dates_def
      by (simp only: distinct_append)
  qed
qed


lemma update_only_appends:
  "\<exists>added. PriceData (snd (update_daily_data e st symbol dps)) = PriceData st @ added
     \<and> (\<forall>r \<in> set added. pd_date r \<notin> existing_dates (PriceData st) (pd_assetId r))"
proof (cases "get_asset_id (Asset st) symbol")
  case None
  then show ?thesis by (simp add: update_daily_data_def)
next
  case (Some aid)
  show ?thesis
  proof (cases "aid = []")
    case True
    with Some show ?thesis by (simp add: update_daily_data_def)
  next
    case False
    let ?ins = "inserted e st (filter_new (PriceData st) aid dps)"
    let ?added = "map (\<lambda>(k, dp). new_price_row e aid (now_ms e) dp k) ?ins"
    have "PriceData (snd (update_daily_data e st symbol dps)) = PriceData st @ ?added"
      by (simp add: update_daily_data_result [OF Some False])
    moreover have "\<forall>r \<in> set ?added. pd_date r \<notin> existing_dates (PriceData st) (pd_assetId r)"
    proof
      fix r assume "r \<in> set ?added"
      then obtain p where p: "p \<in> set ?ins"
        and r: "r = new_price_row e aid (now_ms e) (snd p) (fst p)"
        by (auto simp: case_prod_unfold)
      have "snd p \<in> set (filter_new (PriceData st) aid dps)"
        using p by (rule set_inserted)
      then have "dp_date (snd p) \<notin> existing_dates (PriceData st) aid"
        by (simp add: filter_new_def)
      then show "pd_date r \<notin> existing_dates (PriceData st) (pd_assetId r)"
        by (simp add: r new_price_row_def)
    qed
    ultimately show ?thesis by blast
  qed
qed

lemma runs_keep_no_duplicates:
  "no_duplicate_dates (PriceData st) \<Longrightarrow> \<forall>run \<in> set runs. distinct (map dp_date (snd run))
   \<Longrightarrow> no_duplicate_dates (PriceData (ingestion_runs e st runs))"
proof (induction runs arbitrary: st)
  case Nil
  then show ?case by simp
next
  case (Cons run runs)
  have "no_duplicate_dates (PriceData (snd (update_daily_data e st (fst run) (snd run))))"
    using Cons.prems by (intro update_keeps_no_duplicates) simp_all
  then show ?case
    using Cons.prems by (simp add: Cons.IH)
qed

text \<open>
  C1 (as amended). Skip-on-duplicate ingestion filters the incoming bars against the dates
  stored when the call starts, and not against each other. So: a call of
  \<open>update_daily_data\<close> only appends rows, and none of them has a date that was stored for
  its asset before the call; and when no run is given a batch with a repeated date, a
  store in which no two PriceData rows share (assetId, date) stays so through any number
  of runs, whichever inserts fail.
\<close>

theorem no_duplicate_dates_invariant:
  assumes "no_duplicate_dates (PriceData st)"
    and "\<forall>run \<in> set runs. distinct (map dp_date (snd run))"
  shows "no_duplicate_dates (PriceData (ingestion_runs e st runs))
     \<and> (\<exists>added. PriceData (snd (update_daily_data e st symbol dps)) = PriceData st @ added
          \<and> (\<forall>r \<in> set added. pd_date r \<notin> existing_dates (PriceData st) (pd_assetId r)))"
  using runs_keep_no_duplicates [OF assms] update_only_appends by blast

theorem no_duplicate_dates_invariant_witness:
  "no_duplicate_dates (PriceData store1)
   \<and> list_all (\<lambda>run. distinct (map dp_date (snd run)))
         [(''AAPL'', [bar jan2 10, bar jan3 11]), (''AAPL'', [bar jan3 11])]
   \<and> no_duplicate_dates (PriceData (ingestion_runs quiet store1
         [(''AAPL'', [bar jan2 10, bar jan3 11]), (''AAPL'', [bar jan3 11])]))"
proof -
  have h1: "no_duplicate_dates (PriceData store1)"
    by (simp add: store1_def no_duplicate_dates_def)
  have h2: "\<forall>run \<in> set [(''AAPL'', [bar jan2 10, bar jan3 11]), (''AAPL'', [bar jan3 11])].
         distinct (map dp_date (snd run))"
    by (simp add: bar_def jan2_def jan3_def)
  show ?thesis
    using h1 h2 no_duplicate_dates_invariant [OF h1 h2] unfolding list_all_iff by blast
qed

text \<open>
  C1, as stated, fails for a batch that carries one date twice: both bars pass the
  filter, which looks at the stored dates only, and both are inserted.
\<close>

theorem repeated_date_in_batch_counterexample:
  "no_duplicate_dates (PriceData store1)
   \<and> \<not> no_duplicate_dates
        (PriceData (ingestion_runs quiet store1 [(''AAPL'', [bar jan2 10, bar jan2 11])]))"
  by (simp add: concrete_defs no_duplicate_dates_def)

text \<open>
  C5. When the asset is found, \<open>update_daily_data\<close> tries the \<open>INSERT\<close> of every new bar
  in turn. A statement that raises is skipped and the next ones are still executed: the
  rows appended to PriceData are those of exactly the statements that did not raise, in
  order, and the count returned is their number, which is the number of new bars minus
  the number of statements that raised.
\<close>

theorem partial_failure_isolation:
  assumes "get_asset_id (Asset st) symbol = Some asset_id" and "asset_id \<noteq> []"
  shows "update_daily_data e st symbol dps =
     (length (inserted e st (filter_new (PriceData st) asset_id dps)),
      st\<lparr>PriceData := PriceData st @
           map (\<lambda>(k, dp). new_price_row e asset_id (now_ms e) dp k)
             (inserted e st (filter_new (PriceData st) asset_id dps)),
         stmts := stmts st + length (filter_new (PriceData st) asset_id dps)\<rparr>)
     \<and> length (inserted e st (filter_new (PriceData st) asset_id dps))
         + length (filter (insert_raises e)
             [stmts st ..< stmts st + length (filter_new (PriceData st) asset_id dps)])
       = length (filter_new (PriceData st) asset_id dps)"
  using update_daily_data_result [OF assms] inserted_count by blast

theorem partial_failure_isolation_witness:
  "get_asset_id (Asset store1) ''AAPL'' = Some ''a1'' \<and> ''a1'' \<noteq> []
   \<and> length (filter_new (PriceData store1) ''a1'' ten_bars) = 10
   \<and> fst (update_daily_data (flaky 4) store1 ''AAPL'' ten_bars) = 9
   \<and> map pd_date (PriceData (snd (update_daily_data (flaky 4) store1 ''AAPL'' ten_bars)))
       = [''2024-01-01'', ''2024-01-02'', ''2024-01-03'', ''2024-01-04'',
          ''2024-01-06'', ''2024-01-07'', ''2024-01-08'', ''2024-01-09'', ''2024-01-10'']"
proof -
  have h1: "get_asset_id (Asset store1) ''AAPL'' = Some ''a1''"
    by (simp add: concrete_defs)
  have h2: "''a1'' \<noteq> []" by simp
  have new: "filter_new (PriceData store1) ''a1'' ten_bars = ten_bars"
    by (simp add: filter_new_def existing_dates_def store1_def)
  have ins: "map snd (inserted (flaky 4) store1 ten_bars)
             = map (\<lambda>d. bar d 10)
                 [''2024-01-01'', ''2024-01-02'', ''2024-01-03'', ''2024-01-04'',
                  ''2024-01-06'', ''2024-01-07'', ''2024-01-08'', ''2024-01-09'', ''2024-01-10'']"
    by (simp add: inserted_def flaky_def quiet_def store1_def ten_bars_def)
  have len: "length (inserted (flaky 4) store1 ten_bars) = 9"
    using arg_cong [OF ins, of length] by simp
  have "map pd_date (map (\<lambda>(k, dp). new_price_row (flaky 4) ''a1'' (now_ms (flaky 4)) dp k)
          (inserted (flaky 4) store1 ten_bars))
        = map dp_date (map snd (inserted (flaky 4) store1 ten_bars))"
    by (simp add: new_price_row_def case_prod_unfold comp_def)
  then have dates: "map pd_date (map (\<lambda>(k, dp). new_price_row (flaky 4) ''a1'' (now_ms (flaky 4)) dp k)
          (inserted (flaky 4) store1 ten_bars))
        = [''2024-01-01'', ''2024-01-02'', ''2024-01-03'', ''2024-01-04'',
           ''2024-01-06'', ''2024-01-07'', ''2024-01-08'', ''2024-01-09'', ''2024-01-10'']"
    unfolding ins by (simp add: bar_def)
  have "length ten_bars = 10" by (simp add: ten_bars_def)
  then show ?thesis
    using h1 partial_failure_isolation [OF h1 h2, of "flaky 4" ten_bars] new len dates
    by (simp add: store1_def)
qed









section \<open>The symbol resolver\<close>













section \<open>Waiting for a locked database\<close>

lemma wait_loop_locked_step:
  assumes "locked (connect i)"
  shows "wait_loop connect i (Suc n) slept = wait_loop connect (Suc i) n (slept + 2)"
  using assms by (auto simp: locked_def split: sum.splits exn.splits)

lemma wait_loop_other_step:
  assumes "\<not> locked (connect i)"
  shows "wait_loop connect i (Suc n) slept = (connect i, Suc i, slept)"
  using assms by (auto simp: locked_def split: sum.splits exn.splits)

lemma wait_loop_locked:
  assumes "\<forall>j<k. locked (connect (i + j))"
  shows "wait_loop connect i (k + n) slept = wait_loop connect (i + k) n (slept + 2 * k)"
  using assms
proof (induction k arbitrary: i slept)
  case 0
  show ?case by (simp only: add_0 add_0_right mult_0_right)
next
  case (Suc k)
  have "locked (connect (i + 0))" using Suc.prems by blast
  then have first: "locked (connect i)" by simp
  have rest: "\<forall>j<k. locked (connect (Suc i + j))"
  proof (intro allI impI)
    fix j assume "j < k"
    then have "locked (connect (i + Suc j))" using Suc.prems by blast
    then show "locked (connect (Suc i + j))" by simp
  qed
  note step = wait_loop_locked_step [of connect i "k + n" slept]
  note ih = Suc.IH [of "Suc i" "slept + 2"]
  have "wait_loop connect i (Suc k + n) slept = wait_loop connect i (Suc (k + n)) slept"
    by (simp only: add_Suc)
  also have "\<dots> = wait_loop connect (Suc i) (k + n) (slept + 2)"
    using step first by blast
  also have "\<dots> = wait_loop connect (Suc i + k) n (slept + 2 + 2 * k)"
    using ih rest by blast
  also have "\<dots> = wait_loop connect (i + Suc k) n (slept + 2 * Suc k)"
    by (simp only: add_Suc add_Suc_right mult_Suc_right add.assoc)
  finally show ?case .
qed

lemma wait_for_database_exhausted:
  assumes "\<forall>j<max_retries. locked (connect j)"
  shows "wait_for_database connect max_retries =
     (Inl (Exception ''Database remained locked after all retries''), max_retries, 2 * max_retries)"
proof -
  note l = wait_loop_locked [of max_retries connect 0 0 0]
  have all: "\<forall>j<max_retries. locked (connect (0 + j))" using assms by simp
  have "wait_for_database connect max_retries = wait_loop connect 0 (max_retries + 0) 0"
    by (simp only: wait_for_database_def add_0_right)
  also have "\<dots> = wait_loop connect (0 + max_retries) 0 (0 + 2 * max_retries)"
    using l all by blast
  also have "\<dots> = (Inl (Exception ''Database remained locked after all retries''),
           0 + max_retries, 0 + 2 * max_retries)"
    by (rule wait_loop.simps(1))
  also have "\<dots> = (Inl (Exception ''Database remained locked after all retries''),
           max_retries, 2 * max_retries)"
    by (simp only: add_0)
  finally show ?thesis .
qed

lemma wait_for_database_stops:
  assumes "\<forall>j<k. locked (connect j)" and "k < max_retries" and "\<not> locked (connect k)"
  shows "wait_for_database connect max_retries = (connect k, Suc k, 2 * k)"
proof -
  have "\<exists>n. max_retries = Suc (k + n)"
    using assms(2) by (simp only: less_iff_Suc_add)
  then obtain n where n: "max_retries = k + Suc n" by auto
  note l = wait_loop_locked [of k connect 0 "Suc n" 0]
  note o = wait_loop_other_step [of connect k n "2 * k"]
  have all: "\<forall>j<k. locked (connect (0 + j))" using assms(1) by simp
  have "wait_for_database connect max_retries = wait_loop connect 0 (k + Suc n) 0"
    by (simp only: wait_for_database_def n)
  also have "\<dots> = wait_loop connect (0 + k) (Suc n) (0 + 2 * k)"
    using l all by blast
  also have "\<dots> = wait_loop connect k (Suc n) (2 * k)"
    by (simp only: add_0)
  also have "\<dots> = (connect k, Suc k, 2 * k)"
    using assms(3) o by blast
  finally show ?thesis .
qed

lemma main_simple_status:
  "wait_for_database connect 10 = (r, n, slept) \<Longrightarrow>
     attempts (main_simple connect e) = n \<and> seconds_slept (main_simple connect e) = slept
     \<and> (exit_status (main_simple connect e) = 1 \<longleftrightarrow> isl r)"
  by (cases r) (simp_all add: main_simple_def Let_def)

text \<open>
  C9. \<open>wait_for_database\<close> with its 10 retries: while the attempts to connect fail with
  an \<open>OperationalError\<close> that says \<open>database is locked\<close>, it sleeps 2 seconds after each
  and tries again. When all 10 attempts fail so, it has slept 20 seconds and raises, and
  \<open>main\<close> exits with status 1. When an earlier attempt (number k, after k locked ones)
  ends otherwise, nothing more is tried: a connection is returned, any other error is
  raised at once after the 2k seconds slept so far, and the status is 1 exactly when it
  was an error.
\<close>

theorem connection_retry:
  assumes "\<forall>j<k. locked (connect j)"
  shows "(10 \<le> k \<longrightarrow>
            wait_for_database connect 10
              = (Inl (Exception ''Database remained locked after all retries''), 10, 20)
            \<and> exit_status (main_simple connect e) = 1
            \<and> attempts (main_simple connect e) = 10
            \<and> seconds_slept (main_simple connect e) = 20)
       \<and> (k < 10 \<and> \<not> locked (connect k) \<longrightarrow>
            wait_for_database connect 10 = (connect k, Suc k, 2 * k)
            \<and> attempts (main_simple connect e) = Suc k
            \<and> seconds_slept (main_simple connect e) = 2 * k
            \<and> (exit_status (main_simple connect e) = 1 \<longleftrightarrow> isl (connect k)))"
proof (intro conjI impI)
  assume "10 \<le> k"
  with assms have "\<forall>j<10. locked (connect j)" by simp
  then have w: "wait_for_database connect 10
              = (Inl (Exception ''Database remained locked after all retries''), 10, 2 * 10)"
    by (rule wait_for_database_exhausted)
  then show "wait_for_database connect 10
              = (Inl (Exception ''Database remained locked after all retries''), 10, 20)"
    by simp
  note m = main_simple_status [OF w, of e]
  show "exit_status (main_simple connect e) = 1" using m by simp
  show "attempts (main_simple connect e) = 10" using m by simp
  show "seconds_slept (main_simple connect e) = 20" using m by simp
next
  assume a: "k < 10 \<and> \<not> locked (connect k)"
  have w: "wait_for_database connect 10 = (connect k, Suc k, 2 * k)"
    using assms a by (intro wait_for_database_stops) simp_all
  then show "wait_for_database connect 10 = (connect k, Suc k, 2 * k)" .
  note m = main_simple_status [OF w, of e]
  show "attempts (main_simple connect e) = Suc k" using m by simp
  show "seconds_slept (main_simple connect e) = 2 * k" using m by simp
  show "exit_status (main_simple connect e) = 1 \<longleftrightarrow> isl (connect k)" using m by simp
qed

lemma locked_always: "locked (always_locked j)"
  by (simp add: locked_def always_locked_def)

lemma locked_unreadable: "locked (unreadable_after n j) \<longleftrightarrow> j < n"
  by (simp add: locked_def unreadable_after_def sublist_code prefix_code)

theorem connection_retry_witness:
  "list_all (\<lambda>j. locked (always_locked j)) [0..<10]
   \<and> exit_status (main_simple always_locked quiet) = 1
   \<and> attempts (main_simple always_locked quiet) = 10
   \<and> seconds_slept (main_simple always_locked quiet) = 20
   \<and> list_all (\<lambda>j. locked (unreadable_after 3 j)) [0..<3]
   \<and> \<not> locked (unreadable_after 3 3)
   \<and> exit_status (main_simple (unreadable_after 3) quiet) = 1
   \<and> attempts (main_simple (unreadable_after 3) quiet) = 4
   \<and> seconds_slept (main_simple (unreadable_after 3) quiet) = 6"
proof -
  have h1: "\<forall>j<10. locked (always_locked j)" by (simp add: locked_always)
  have h2: "\<forall>j<3. locked (unreadable_after 3 j)" by (simp add: locked_unreadable)
  have h3: "\<not> locked (unreadable_after 3 3)" by (simp add: locked_unreadable)
  have l1: "list_all (\<lambda>j. locked (always_locked j)) [0..<10]"
    by (simp add: list_all_iff locked_always)
  have l2: "list_all (\<lambda>j. locked (unreadable_after 3 j)) [0..<3]"
    by (simp add: list_all_iff locked_unreadable)
  have i: "isl (unreadable_after 3 3)" by (simp add: unreadable_after_def)
  show ?thesis
    using connection_retry [OF h1, of quiet] connection_retry [OF h2, of quiet] h3 l1 l2 i
    by simp
qed

section \<open>The loop over the symbols\<close>

lemma commit_step_fields:
  "db (commit_step e i symbol r) = db r
   \<and> total_inserted (counters (commit_step e i symbol r)) = total_inserted (counters r)
   \<and> successful_updates (counters (commit_step e i symbol r)) = successful_updates (counters r)
   \<and> failed_updates (counters (commit_step e i symbol r))
       = failed_updates (counters r) + (if i mod 10 = 0 \<and> commit_raises e i then 1 else 0)
   \<and> failed_symbols (counters (commit_step e i symbol r))
       = failed_symbols (counters r) @ (if i mod 10 = 0 \<and> commit_raises e i then [symbol] else [])"
  by (simp add: commit_step_def loop_handler_def)

lemma process_symbol_step:
  "failed_symbols (counters (process_symbol e i symbol r))
     = failed_symbols (counters r) @ (if raises_in_loop e i symbol then [symbol] else [])
   \<and> failed_updates (counters (process_symbol e i symbol r))
     = failed_updates (counters r) + (if raises_in_loop e i symbol then 1 else 0)
       + (if fetch_daily_data_for_symbol e symbol = [] then 1 else 0)
   \<and> successful_updates (counters (process_symbol e i symbol r))
     = successful_updates (counters r)
       + (if fetch_daily_data_for_symbol e symbol \<noteq> [] \<and> \<not> query_raises e symbol then 1 else 0)
   \<and> db (process_symbol e i symbol r)
     = (if query_raises e symbol then db r
        else snd (update_daily_data e (db r) symbol (fetch_daily_data_for_symbol e symbol)))"
proof (cases "fetch_daily_data_for_symbol e symbol = []")
  case True
  then show ?thesis
    by (simp add: process_symbol_def raises_in_loop_def commit_step_fields update_daily_data_def)
next
  case False
  then show ?thesis
    by (simp add: process_symbol_def raises_in_loop_def commit_step_fields loop_handler_def Let_def)
qed

lemma process_symbols_run:
  "failed_symbols (counters (process_symbols e i symbols r))
     = failed_symbols (counters r)
       @ map snd (filter (\<lambda>(j, symbol). raises_in_loop e j symbol) (enumerate i symbols))
   \<and> failed_updates (counters (process_symbols e i symbols r))
     = failed_updates (counters r)
       + length (filter (\<lambda>(j, symbol). raises_in_loop e j symbol) (enumerate i symbols))
       + length (filter (\<lambda>symbol. fetch_daily_data_for_symbol e symbol = []) symbols)
   \<and> successful_updates (counters (process_symbols e i symbols r))
     = successful_updates (counters r)
       + length (filter (\<lambda>symbol. fetch_daily_data_for_symbol e symbol \<noteq> []
                                    \<and> \<not> query_raises e symbol) symbols)
   \<and> db (process_symbols e i symbols r)
     = fold (\<lambda>symbol st. snd (update_daily_data e st symbol (fetch_daily_data_for_symbol e symbol)))
         (filter (\<lambda>symbol. \<not> query_raises e symbol) symbols) (db r)"
proof (induction symbols arbitrary: i r)
  case Nil
  then show ?case by simp
next
  case (Cons symbol symbols)
  note step = process_symbol_step [of e i symbol r]
  note ih = Cons.IH [of "Suc i" "process_symbol e i symbol r"]
  show ?case
    using step ih by simp
qed

lemma main_fatal:
  "fst (main e st) = Fatal \<longleftrightarrow>
     get_all_stock_symbols (Asset st) \<noteq> []
     \<and> commit_raises e (Suc (length (get_all_stock_symbols (Asset st))))"
  by (simp add: main_def Let_def)

text \<open>
  C7 (as amended). In the loop of \<open>main\<close>, an exception that leaves the pass of a symbol
  (raised by a query of \<open>update_daily_data\<close>, or by the commit that ends every tenth pass)
  is caught by the handler of the loop, which prints the symbol and adds exactly one to
  \<open>failed_updates\<close>; the loop goes on, and only the final commit, after the last pass, can
  abort the run. Exceptions raised at the other stages never reach that handler: the
  provider's is caught inside the fetcher, and the symbol is counted as failed for having
  no data; the one of an \<open>INSERT\<close> is caught by the row writer, and the symbol is counted
  as successful. Over a whole run: the symbols printed by the handler are exactly those
  whose pass raised, in order; \<open>failed_updates\<close> grows by one for each of them and by one
  for each symbol without data; \<open>successful_updates\<close> grows by one for each symbol with
  data whose update did not raise; and the store after the loop is the store obtained by
  updating, in order, every symbol whose update did not raise, as if the others were not
  there.
\<close>

theorem symbol_failure_isolation:
  "failed_symbols (counters (process_symbols e i symbols r))
     = failed_symbols (counters r)
       @ map snd (filter (\<lambda>(j, symbol). raises_in_loop e j symbol) (enumerate i symbols))
   \<and> failed_updates (counters (process_symbols e i symbols r))
     = failed_updates (counters r)
       + length (filter (\<lambda>(j, symbol). raises_in_loop e j symbol) (enumerate i symbols))
       + length (filter (\<lambda>symbol. fetch_daily_data_for_symbol e symbol = []) symbols)
   \<and> successful_updates (counters (process_symbols e i symbols r))
     = successful_updates (counters r)
       + length (filter (\<lambda>symbol. fetch_daily_data_for_symbol e symbol \<noteq> []
                                    \<and> \<not> query_raises e symbol) symbols)
   \<and> db (process_symbols e i symbols r)
     = fold (\<lambda>symbol st. snd (update_daily_data e st symbol (fetch_daily_data_for_symbol e symbol)))
         (filter (\<lambda>symbol. \<not> query_raises e symbol) symbols) (db r)
   \<and> (fst (main e st) = Fatal \<longleftrightarrow>
        get_all_stock_symbols (Asset st) \<noteq> []
        \<and> commit_raises e (Suc (length (get_all_stock_symbols (Asset st)))))"
  using process_symbols_run [of e i symbols r] main_fatal [of e st] by blast

lemma abc_symbols: "get_all_stock_symbols (Asset abc_store) = [''A'', ''B'', ''C'']"
  by (simp add: get_all_stock_symbols_def abc_store_def new_asset_row_def)

lemma b_fails_fetch: "fetch_daily_data_for_symbol b_fails symbol = [to_data_point (raw_bar jan2 10)]"
  by (simp add: fetch_daily_data_for_symbol_def b_fails_def quiet_def critical_nan_def raw_bar_def)

lemma b_fails_raises: "raises_in_loop b_fails j symbol \<longleftrightarrow> symbol = ''B''"
  by (simp add: raises_in_loop_def b_fails_fetch) (simp add: b_fails_def quiet_def)

lemma b_fails_query: "query_raises b_fails symbol \<longleftrightarrow> symbol = ''B''"
  by (simp add: b_fails_def quiet_def)

lemma b_offline_fetch:
  "fetch_daily_data_for_symbol b_offline symbol
   = (if symbol = ''B'' then [] else [to_data_point (raw_bar jan2 10)])"
  by (simp add: fetch_daily_data_for_symbol_def b_offline_def quiet_def critical_nan_def raw_bar_def)

lemma b_offline_raises: "\<not> raises_in_loop b_offline j symbol"
  by (simp add: raises_in_loop_def b_offline_def quiet_def)

lemma b_offline_query: "\<not> query_raises b_offline symbol"
  by (simp add: b_offline_def quiet_def)

lemma a_then_c:
  assumes "insert_raises e = (\<lambda>k. False)"
  shows "map pd_assetId (PriceData (snd (update_daily_data e
           (snd (update_daily_data e abc_store ''A'' [to_data_point (raw_bar jan2 10)]))
           ''C'' [to_data_point (raw_bar jan2 10)])))
         = [''ida'', ''idc'']"
  using assms
  by (simp add: update_daily_data_def get_asset_id_def abc_store_def new_asset_row_def
      filter_new_def existing_dates_def new_price_row_def)

theorem symbol_failure_isolation_witness:
  "failed_updates (counters (process_symbols b_fails 1 [''A'', ''B'', ''C''] abc_start)) = 1
   \<and> failed_symbols (counters (process_symbols b_fails 1 [''A'', ''B'', ''C''] abc_start)) = [''B'']
   \<and> map pd_assetId (PriceData (db (process_symbols b_fails 1 [''A'', ''B'', ''C''] abc_start)))
       = [''ida'', ''idc'']
   \<and> fst (main b_fails abc_store)
       = Summary (counters (process_symbols b_fails 1 [''A'', ''B'', ''C''] abc_start))
   \<and> failed_updates (counters (process_symbols b_offline 1 [''A'', ''B'', ''C''] abc_start)) = 1
   \<and> failed_symbols (counters (process_symbols b_offline 1 [''A'', ''B'', ''C''] abc_start)) = []
   \<and> map pd_assetId (PriceData (db (process_symbols b_offline 1 [''A'', ''B'', ''C''] abc_start)))
       = [''ida'', ''idc'']
   \<and> fst (main b_offline abc_store)
       = Summary (counters (process_symbols b_offline 1 [''A'', ''B'', ''C''] abc_start))"
proof -
  note t1 = symbol_failure_isolation [of b_fails 1 "[''A'', ''B'', ''C'']" abc_start abc_store]
  note t2 = symbol_failure_isolation [of b_offline 1 "[''A'', ''B'', ''C'']" abc_start abc_store]
  have i1: "insert_raises b_fails = (\<lambda>k. False)" by (simp add: b_fails_def quiet_def)
  have i2: "insert_raises b_offline = (\<lambda>k. False)" by (simp add: b_offline_def quiet_def)
  have c1: "\<not> commit_raises b_fails k" and c2: "\<not> commit_raises b_offline k" for k
    by (simp_all add: b_fails_def b_offline_def quiet_def)
  have f1: "failed_updates (counters (process_symbols b_fails 1 [''A'', ''B'', ''C''] abc_start)) = 1"
    using t1 by (simp add: b_fails_raises b_fails_fetch abc_start_def no_summary_def)
  have f2: "failed_symbols (counters (process_symbols b_fails 1 [''A'', ''B'', ''C''] abc_start)) = [''B'']"
    using t1 by (simp add: b_fails_raises abc_start_def no_summary_def)
  have f3: "map pd_assetId (PriceData (db (process_symbols b_fails 1 [''A'', ''B'', ''C''] abc_start)))
            = [''ida'', ''idc'']"
    using t1 a_then_c [OF i1] by (simp add: b_fails_query b_fails_fetch abc_start_def)
  have m1: "fst (main b_fails abc_store)
            = Summary (counters (process_symbols b_fails 1 [''A'', ''B'', ''C''] abc_start))"
    using c1 by (simp add: main_def abc_symbols abc_start_def Let_def)
  have g1: "failed_updates (counters (process_symbols b_offline 1 [''A'', ''B'', ''C''] abc_start)) = 1"
    using t2 by (simp add: b_offline_raises b_offline_fetch abc_start_def no_summary_def)
  have g2: "failed_symbols (counters (process_symbols b_offline 1 [''A'', ''B'', ''C''] abc_start)) = []"
    using t2 by (simp add: b_offline_raises abc_start_def no_summary_def)
  have "update_daily_data b_offline st ''B'' [] = (0, st)" for st
    by (simp add: update_daily_data_def)
  then have g3: "map pd_assetId (PriceData (db (process_symbols b_offline 1 [''A'', ''B'', ''C''] abc_start)))
            = [''ida'', ''idc'']"
    using t2 a_then_c [OF i2] by (simp add: b_offline_query b_offline_fetch abc_start_def)
  have m2: "fst (main b_offline abc_store)
            = Summary (counters (process_symbols b_offline 1 [''A'', ''B'', ''C''] abc_start))"
    using c2 by (simp add: main_def abc_symbols abc_start_def Let_def)
  show ?thesis
    using f1 f2 f3 m1 g1 g2 g3 m2 by blast
qed

lemma b_insert_fails_fetch:
  "fetch_daily_data_for_symbol b_insert_fails symbol = [to_data_point (raw_bar jan2 10)]"
  by (simp add: fetch_daily_data_for_symbol_def b_insert_fails_def quiet_def critical_nan_def
      raw_bar_def)

text \<open>
  C7, as stated, fails for an exception in the \<open>INSERT\<close> stage: with the only insert for
  B raising, the run over A, B, C reports no failure and three successes.
\<close>

theorem insert_exception_not_counted_counterexample:
  "fst (main b_insert_fails abc_store)
     = Summary \<lparr>total_inserted = 2, successful_updates = 3, failed_updates = 0,
                failed_symbols = []\<rparr>
   \<and> map pd_assetId (PriceData (snd (main b_insert_fails abc_store))) = [''ida'', ''idc'']"
proof -
  have q: "\<not> query_raises b_insert_fails symbol" and c: "\<not> commit_raises b_insert_fails k"
    and i: "insert_raises b_insert_fails k \<longleftrightarrow> k = 1" for symbol k
    by (simp_all add: b_insert_fails_def quiet_def)
  have run: "counters (process_symbols b_insert_fails 1 [''A'', ''B'', ''C'']
               \<lparr>counters = no_summary, db = abc_store, last_commit = abc_store\<rparr>)
             = \<lparr>total_inserted = 2, successful_updates = 3, failed_updates = 0,
                failed_symbols = []\<rparr>
             \<and> map pd_assetId (PriceData (db (process_symbols b_insert_fails 1 [''A'', ''B'', ''C'']
               \<lparr>counters = no_summary, db = abc_store, last_commit = abc_store\<rparr>)))
             = [''ida'', ''idc'']"
    by (simp add: process_symbol_def b_insert_fails_fetch q c i commit_step_def no_summary_def
        update_daily_data_def get_asset_id_def abc_store_def new_asset_row_def filter_new_def
        existing_dates_def new_price_row_def Let_def)
  show ?thesis
    using run by (simp add: main_def abc_symbols c Let_def)
qed

lemma fetch_empty:
  assumes "history e symbol = Inr [] \<or> isl (history e symbol)"
  shows "fetch_daily_data_for_symbol e symbol = []"
  using assms by (auto simp: fetch_daily_data_for_symbol_def split: sum.splits)

text \<open>
  C8 (as amended). \<open>fetch_daily_data_for_symbol\<close> returns the empty list both when the
  provider has no data for the symbol and when the provider raises: the error is printed
  inside the fetcher and not passed on. \<open>main\<close> cannot tell the two apart, and treats
  both alike: the symbol is not updated, is not counted as successful, and
  \<open>failed_updates\<close> grows by one for the empty result, and by one more when this is a
  tenth pass whose commit raises.
\<close>

theorem empty_and_failed_fetch_alike:
  assumes "history e symbol = Inr [] \<or> isl (history e symbol)"
  shows "fetch_daily_data_for_symbol e symbol = []
     \<and> db (process_symbol e i symbol r) = db r
     \<and> successful_updates (counters (process_symbol e i symbol r)) = successful_updates (counters r)
     \<and> total_inserted (counters (process_symbol e i symbol r)) = total_inserted (counters r)
     \<and> failed_updates (counters (process_symbol e i symbol r))
         = failed_updates (counters r) + (if i mod 10 = 0 \<and> commit_raises e i then 2 else 1)"
  using fetch_empty [OF assms]
  by (simp add: process_symbol_def commit_step_fields)

theorem empty_and_failed_fetch_alike_witness:
  "history quiet ''AAPL'' = Inr []
   \<and> isl (history offline ''AAPL'')
   \<and> fetch_daily_data_for_symbol quiet ''AAPL'' = []
   \<and> fetch_daily_data_for_symbol offline ''AAPL'' = []
   \<and> failed_updates (counters (process_symbol quiet 1 ''AAPL'' start1)) = 1
   \<and> failed_updates (counters (process_symbol offline 1 ''AAPL'' start1)) = 1
   \<and> failed_updates (counters (process_symbol (quiet\<lparr>commit_raises := (\<lambda>i. True)\<rparr>) 10 ''AAPL'' start1)) = 2"
proof -
  have h1: "history quiet ''AAPL'' = Inr [] \<or> isl (history quiet ''AAPL'')"
    by (simp add: quiet_def)
  have h2: "history offline ''AAPL'' = Inr [] \<or> isl (history offline ''AAPL'')"
    by (simp add: offline_def quiet_def)
  have h3: "history (quiet\<lparr>commit_raises := (\<lambda>i. True)\<rparr>) ''AAPL'' = Inr []
            \<or> isl (history (quiet\<lparr>commit_raises := (\<lambda>i. True)\<rparr>) ''AAPL'')"
    by (simp add: quiet_def)
  have "history quiet ''AAPL'' = Inr []" by (simp add: quiet_def)
  moreover have "isl (history offline ''AAPL'')" by (simp add: offline_def quiet_def)
  moreover have "\<not> commit_raises quiet 1" and "\<not> commit_raises offline 1"
    by (simp_all add: offline_def quiet_def)
  ultimately show ?thesis
    using empty_and_failed_fetch_alike [OF h1, of 1 start1]
      empty_and_failed_fetch_alike [OF h2, of 1 start1]
      empty_and_failed_fetch_alike [OF h3, of 10 start1]
    by (simp add: start1_def no_summary_def)
qed

text \<open>
  C8, as stated, fails on its first half: a symbol for which the provider has no data is
  counted as a failed update by \<open>main\<close>, not skipped; and a provider error reaches
  \<open>main\<close> as the same empty list.
\<close>

theorem no_data_counted_failed_counterexample:
  "history quiet ''AAPL'' = Inr []
   \<and> fst (main quiet store1)
       = Summary \<lparr>total_inserted = 0, successful_updates = 0, failed_updates = 1,
                  failed_symbols = []\<rparr>
   \<and> history offline ''AAPL'' = Inl (Exception ''timed out'')
   \<and> fetch_daily_data_for_symbol offline ''AAPL'' = fetch_daily_data_for_symbol quiet ''AAPL''"
  by (simp add: main_def get_all_stock_symbols_def store1_def aapl_def new_asset_row_def
      process_symbol_def fetch_daily_data_for_symbol_def quiet_def offline_def commit_step_def
      no_summary_def Let_def)

section \<open>Replacing the price row of a date\<close>

lemma stored_Cons:
  "stored ce st (row # rows) =
     (if c_insert_raises ce (c_stmts st) then [] else [(c_stmts st, row)])
     @ stored ce (st\<lparr>c_stmts := Suc (c_stmts st)\<rparr>) rows"
  by (simp add: stored_def)

lemma stored_upd:
  "stored ce (st\<lparr>CryptocurrencyPrice := t, c_stmts := k\<rparr>) rows = stored ce (st\<lparr>c_stmts := k\<rparr>) rows"
  by (simp add: stored_def)

lemma price_rows_for_replace:
  "price_rows_for crypto_id d (insert_or_replace (new_crypto_row ce crypto_id row k) t)
   = (if r_date row = d then [new_crypto_row ce crypto_id row k] else price_rows_for crypto_id d t)"
proof (cases "r_date row = d")
  case True
  have "filter (\<lambda>r. cp_cryptocurrencyId r = crypto_id \<and> cp_date r = d)
          (filter (\<lambda>old. \<not> same_key (new_crypto_row ce crypto_id row k) old) t) = []"
    using True by (auto simp: filter_empty_conv same_key_def new_crypto_row_def)
  then show ?thesis
    using True by (simp add: price_rows_for_def insert_or_replace_def new_crypto_row_def)
next
  case False
  have "filter (\<lambda>r. cp_cryptocurrencyId r = crypto_id \<and> cp_date r = d)
          (filter (\<lambda>old. \<not> same_key (new_crypto_row ce crypto_id row k) old) t)
        = filter (\<lambda>r. cp_cryptocurrencyId r = crypto_id \<and> cp_date r = d) t"
    using False by (auto simp: same_key_def new_crypto_row_def intro: filter_cong)
  then show ?thesis
    using False by (simp add: price_rows_for_def insert_or_replace_def new_crypto_row_def)
qed

lemma store_crypto_rows_date:
  "price_rows_for crypto_id d (CryptocurrencyPrice (snd (store_crypto_rows ce crypto_id rows n st)))
   = (if on_date d (stored ce st rows) = [] then price_rows_for crypto_id d (CryptocurrencyPrice st)
      else [new_crypto_row ce crypto_id (snd (last (on_date d (stored ce st rows))))
              (fst (last (on_date d (stored ce st rows))))])"
proof (induction rows arbitrary: n st)
  case Nil
  then show ?case by (simp add: stored_def on_date_def)
next
  case (Cons row rows)
  show ?case
  proof (cases "c_insert_raises ce (c_stmts st)")
    case True
    then show ?thesis
      by (simp add: Cons.IH stored_Cons)
  next
    case False
    then show ?thesis
      by (simp add: Cons.IH stored_Cons stored_upd price_rows_for_replace on_date_def)
  qed
qed

text \<open>
  C3 (as amended). In the crypto variant, when the commit succeeds and the provider's
  series has a bar for date \<open>d\<close> whose \<open>INSERT OR REPLACE\<close> did not raise, then after
  \<open>fetch_and_store_crypto_data\<close> exactly one CryptocurrencyPrice row exists for that
  cryptocurrency and date, whatever was stored for them before: the row built from the
  last such bar of the series, with a fresh id and with the open, high, low, close and
  volume of that bar.
\<close>

theorem replace_on_existing_date:
  assumes "c_history ce = Inr hist" and "\<not> c_commit_raises ce"
    and "on_date d (stored ce st hist) \<noteq> []"
  shows "price_rows_for crypto_id d
           (CryptocurrencyPrice (snd (fetch_and_store_crypto_data ce st crypto_id)))
         = [new_crypto_row ce crypto_id (snd (last (on_date d (stored ce st hist))))
              (fst (last (on_date d (stored ce st hist))))]"
proof -
  have "hist \<noteq> []"
    using assms(3) by (auto simp: on_date_def stored_def)
  then have "snd (fetch_and_store_crypto_data ce st crypto_id)
             = snd (store_crypto_rows ce crypto_id hist 0 st)"
    using assms(1,2) by (simp add: fetch_and_store_crypto_data_def Let_def)
  then show ?thesis
    using assms(3) by (simp add: store_crypto_rows_date)
qed

theorem replace_on_existing_date_witness:
  "c_history refetch = Inr [raw_bar jan2 20, raw_bar jan3 21]
   \<and> \<not> c_commit_raises refetch
   \<and> on_date jan2 (stored refetch btc_store [raw_bar jan2 20, raw_bar jan3 21]) = [(0, raw_bar jan2 20)]
   \<and> price_rows_for ''btc'' jan2 (CryptocurrencyPrice btc_store) = [btc_old]
   \<and> price_rows_for ''btc'' jan2
        (CryptocurrencyPrice (snd (fetch_and_store_crypto_data refetch btc_store ''btc'')))
      = [new_crypto_row refetch ''btc'' (raw_bar jan2 20) 0]
   \<and> cp_close (new_crypto_row refetch ''btc'' (raw_bar jan2 20) 0) = Num 20"
proof -
  have h1: "c_history refetch = Inr [raw_bar jan2 20, raw_bar jan3 21]"
    by (simp add: refetch_def)
  have h2: "\<not> c_commit_raises refetch" by (simp add: refetch_def)
  have on: "on_date jan2 (stored refetch btc_store [raw_bar jan2 20, raw_bar jan3 21])
            = [(0, raw_bar jan2 20)]"
    by (simp add: on_date_def stored_def refetch_def btc_store_def raw_bar_def jan2_def jan3_def)
  then have h3: "on_date jan2 (stored refetch btc_store [raw_bar jan2 20, raw_bar jan3 21]) \<noteq> []"
    by simp
  have old: "price_rows_for ''btc'' jan2 (CryptocurrencyPrice btc_store) = [btc_old]"
    by (simp add: price_rows_for_def btc_store_def btc_old_def)
  have c: "cp_close (new_crypto_row refetch ''btc'' (raw_bar jan2 20) 0) = Num 20"
    by (simp add: new_crypto_row_def raw_bar_def)
  show ?thesis
    using replace_on_existing_date [OF h1 h2 h3, of "''btc''"] h1 h2 on old c by simp
qed

text \<open>
  C3, as stated, fails when the \<open>INSERT OR REPLACE\<close> for the bar of a stored date raises:
  the statement is logged and skipped, the function still returns \<open>True\<close>, and the row
  for that date keeps the values stored before, not the fetched ones.
\<close>

theorem replace_statement_raises_counterexample:
  "price_rows_for ''btc'' jan2 (CryptocurrencyPrice btc_store) = [btc_old]
   \<and> c_history refetch_fails = Inr [raw_bar jan2 20, raw_bar jan3 21]
   \<and> r_Close (raw_bar jan2 20) = Num 20
   \<and> fst (fetch_and_store_crypto_data refetch_fails btc_store ''btc'') = True
   \<and> price_rows_for ''btc'' jan2
        (CryptocurrencyPrice (snd (fetch_and_store_crypto_data refetch_fails btc_store ''btc'')))
      = [btc_old]
   \<and> cp_close btc_old = Num 1"
  by (simp add: fetch_and_store_crypto_data_def refetch_fails_def refetch_def btc_store_def
      btc_old_def price_rows_for_def insert_or_replace_def same_key_def new_crypto_row_def
      raw_bar_def jan2_def jan3_def Let_def)

text \<open>
  C4. The crypto variant against the claim, on a series with one bar that misses only its
  volume and one bar that misses its close. \<open>fetch_and_store_crypto_data\<close> has no test for
  missing values and passes \<open>float(row['Volume'])\<close> on as it is. Where the table accepts
  the statements, both bars are persisted, the first with a missing volume, not 0; where
  it refuses them, neither is. The stock fetcher, on the same series, drops the bar
  without close and gives the other one volume 0.
\<close>

theorem crypto_rows_with_missing_values:
  "map (\<lambda>r. (cp_date r, cp_close r, cp_volume r))
     (CryptocurrencyPrice (snd (fetch_and_store_crypto_data accepting no_prices ''btc'')))
   = [(jan2, Num 10, NaN), (jan3, NaN, Num 1000)]
   \<and> CryptocurrencyPrice (snd (fetch_and_store_crypto_data rejecting no_prices ''btc'')) = []
   \<and> map (\<lambda>dp. (dp_date dp, dp_close dp, dp_volume dp))
       (fetch_daily_data_for_symbol (quiet\<lparr>history := (\<lambda>s. Inr gappy)\<rparr>) ''AAPL'')
     = [(jan2, Num 10, 0)]"
  by (simp add: fetch_and_store_crypto_data_def accepting_def rejecting_def refetch_def gappy_def
      no_prices_def raw_bar_def new_crypto_row_def insert_or_replace_def same_key_def
      fetch_daily_data_for_symbol_def quiet_def critical_nan_def to_data_point_def Let_def
      jan2_def jan3_def)

end
